theory Spec2Isabelle
  imports Complex_Main
begin

section \<open>Python values, exceptions and string helpers\<close>

text \<open>
  Exceptions are values. Only subclasses of Python's \<open>Exception\<close> are modelled (the
  handlers of the sources are all \<open>except Exception\<close> or narrower); each carries the
  text that \<open>str(e)\<close> yields.
\<close>

datatype exn_class =
    EOFError | TimeoutError | JSONDecodeError | TypeError | KeyError | AttributeError
  | ProcessLookupError | OtherException

datatype exn = Exn exn_class string

fun exn_cls :: "exn \<Rightarrow> exn_class" where
  "exn_cls (Exn c m) = c"

fun exn_str :: "exn \<Rightarrow> string" where
  "exn_str (Exn c m) = m"

text \<open>
  Values decoded by \<open>json.loads\<close>. A dict is an association list, looked up with
  \<open>map_of\<close>.
\<close>

datatype json =
    JNull
  | JBool bool
  | JInt int
  | JFloat real
  | JStr string
  | JArr "json list"
  | JObj "(string \<times> json) list"

abbreviation NL :: char where "NL \<equiv> CHR 0x0A"
abbreviation TAB :: char where "TAB \<equiv> CHR 0x09"

text \<open>
  \<open>str.isspace\<close> on the code points below 256, and \<open>str.strip()\<close> with no argument.
\<close>

definition isspace :: "char \<Rightarrow> bool" where
  "isspace c =
     (let n = (of_char c :: nat)
      in (9 \<le> n \<and> n \<le> 13) \<or> (28 \<le> n \<and> n \<le> 32) \<or> n = 133 \<or> n = 160)"

definition strip :: "string \<Rightarrow> string" where
  "strip s = rev (dropWhile isspace (rev (dropWhile isspace s)))"

text \<open>\<open>sub in s\<close> for two strings.\<close>

fun contains :: "string \<Rightarrow> string \<Rightarrow> bool" where
  "contains sub [] = (sub = [])"
| "contains sub (c # cs) = (take (length sub) (c # cs) = sub \<or> contains sub cs)"

text \<open>\<open>s.split(sep)\<close> for a one-character separator: never an empty list.\<close>

fun split_on :: "char \<Rightarrow> string \<Rightarrow> string list" where
  "split_on sep [] = [[]]"
| "split_on sep (c # cs) =
     (if c = sep then [] # split_on sep cs
      else (case split_on sep cs of
              w # ws \<Rightarrow> (c # w) # ws
            | [] \<Rightarrow> [[c]]))"

section \<open>Tool Backend: \<open>SQLQueryTool\<close> (src/tools/sql_tools.py)\<close>

record history_entry =
  query :: string
  result :: string
  timestamp :: string

record sql_tool =
  executed_queries :: "history_entry list"
  last_query :: "string option"
  last_result :: "string option"

text \<open>The fields as \<open>__init__\<close> leaves them once the connection test has passed.\<close>

definition init_sql_tool :: sql_tool where
  "init_sql_tool = \<lparr>executed_queries = [], last_query = None, last_result = None\<rparr>"

text \<open>
  \<open>run_query\<close>. The database library is outside the sources: the outcome of
  \<open>tool.run(query)\<close> is an argument (\<open>Inl e\<close> when it raises \<open>e\<close>, \<open>Inr r\<close> when it
  returns \<open>r\<close>), and so is the text \<open>ts\<close> of the clock reading taken for the history
  entry. The result is the returned string and the updated object.
\<close>

definition run_query :: "exn + string \<Rightarrow> string \<Rightarrow> string \<Rightarrow> sql_tool \<Rightarrow> string \<times> sql_tool" where
  "run_query outcome ts q st =
     (case outcome of
        Inr res \<Rightarrow>
          (let st1 = st\<lparr>last_query := Some (strip q)\<rparr>;
               st2 = st1\<lparr>last_result := Some res\<rparr>;
               hist = executed_queries st2 @ [\<lparr>query = strip q, result = res, timestamp = ts\<rparr>];
               hist' = (if length hist > 10 then drop (length hist - 10) hist else hist)
           in (res, st2\<lparr>executed_queries := hist'\<rparr>))
      | Inl e \<Rightarrow>
          (let error_msg = ''Error executing query: '' @ exn_str e
           in (error_msg, st\<lparr>last_query := Some (strip q), last_result := Some error_msg\<rparr>)))"

text \<open>A call of \<open>run_query\<close> as the backend sees it: the outcome, the clock text, the query.\<close>

type_synonym call = "(exn + string) \<times> string \<times> string"

fun run_queries :: "call list \<Rightarrow> sql_tool \<Rightarrow> sql_tool" where
  "run_queries [] st = st"
| "run_queries ((outcome, ts, q) # cs) st = run_queries cs (snd (run_query outcome ts q st))"

text \<open>The calls of a sequence whose execution returned, as the entries they leave.\<close>

fun returned :: "call list \<Rightarrow> history_entry list" where
  "returned [] = []"
| "returned ((Inr res, ts, q) # cs) = \<lparr>query = strip q, result = res, timestamp = ts\<rparr> # returned cs"
| "returned ((Inl e, ts, q) # cs) = returned cs"

text \<open>\<open>xs[-10:]\<close>.\<close>

definition last10 :: "'a list \<Rightarrow> 'a list" where
  "last10 xs = drop (length xs - 10) xs"

text \<open>
  The loop of \<open>generate_table_ddl\<close> over the lines of the result: the first line that
  contains \<open>CREATE TABLE\<close> ends the loop, and gives its second tab-separated field when
  it has one.
\<close>

fun find_create_statement :: "string list \<Rightarrow> string" where
  "find_create_statement [] = []"
| "find_create_statement (line # rest) =
     (if contains ''CREATE TABLE'' line
      then (let parts = split_on TAB line
            in if length parts > 1 then parts ! 1 else [])
      else find_create_statement rest)"

definition generate_table_ddl :: "exn + string \<Rightarrow> string \<Rightarrow> string \<Rightarrow> sql_tool \<Rightarrow> string \<times> sql_tool" where
  "generate_table_ddl outcome ts table_name st =
     (let q = ''SHOW CREATE TABLE '' @ table_name;
          (res, st') = run_query outcome ts q st
      in if contains ''CREATE TABLE'' res
         then (let lines = split_on NL res;
                   create_statement = find_create_statement lines
               in if create_statement \<noteq> []
                  then (''-- DDL for table: '' @ table_name @ [NL] @ create_statement @ '';'', st')
                  else (res, st'))
         else (res, st'))"

section \<open>The Python runtime the sources rely on\<close>

text \<open>
  Library functions the sources call and do not define are parameters: \<open>json.loads\<close>
  (which raises \<open>JSONDecodeError\<close> on text that is not JSON; a dict it returns has each key
  once), \<open>bytes.decode()\<close> and \<open>repr\<close> of a decoded value.
\<close>

record runtime =
  json_loads :: "string \<Rightarrow> exn + json"
  bytes_decode :: "string \<Rightarrow> exn + string"
  repr :: "json \<Rightarrow> string"

text \<open>\<open>str(v)\<close>, also what an f-string inserts: a string is itself, anything else its \<open>repr\<close>.\<close>

definition py_str :: "runtime \<Rightarrow> json \<Rightarrow> string" where
  "py_str rt v = (case v of JStr s \<Rightarrow> s | _ \<Rightarrow> repr rt v)"

fun type_name :: "json \<Rightarrow> string" where
  "type_name JNull = ''NoneType''"
| "type_name (JBool b) = ''bool''"
| "type_name (JInt i) = ''int''"
| "type_name (JFloat x) = ''float''"
| "type_name (JStr s) = ''str''"
| "type_name (JArr xs) = ''list''"
| "type_name (JObj kv) = ''dict''"

text \<open>
  \<open>v.get(k, d)\<close>: only a dict has the method. \<open>v[k]\<close> with a string key: a dict gives the
  value or raises \<open>KeyError\<close>, every other value raises \<open>TypeError\<close>. The message texts
  are CPython's; nothing below depends on their wording.
\<close>

definition attribute_error :: "json \<Rightarrow> string \<Rightarrow> exn" where
  "attribute_error v attr =
     Exn AttributeError
       ([CHR 0x27] @ type_name v @ [CHR 0x27] @ '' object has no attribute '' @
        [CHR 0x27] @ attr @ [CHR 0x27])"

definition py_get :: "json \<Rightarrow> string \<Rightarrow> json \<Rightarrow> exn + json" where
  "py_get v k d =
     (case v of
        JObj kv \<Rightarrow> (case map_of kv k of Some x \<Rightarrow> Inr x | None \<Rightarrow> Inr d)
      | _ \<Rightarrow> Inl (attribute_error v ''get''))"

definition py_subscript :: "json \<Rightarrow> string \<Rightarrow> exn + json" where
  "py_subscript v k =
     (case v of
        JObj kv \<Rightarrow>
          (case map_of kv k of
             Some x \<Rightarrow> Inr x
           | None \<Rightarrow> Inl (Exn KeyError ([CHR 0x27] @ k @ [CHR 0x27])))
      | JArr xs \<Rightarrow> Inl (Exn TypeError ''list indices must be integers or slices, not str'')
      | JStr s \<Rightarrow> Inl (Exn TypeError ''string indices must be integers'')
      | _ \<Rightarrow> Inl (Exn TypeError
                 ([CHR 0x27] @ type_name v @ [CHR 0x27] @ '' object is not subscriptable'')))"

section \<open>Request Dispatcher and Process Host: \<open>FastMCP\<close> (src/server/mcp_server.py)\<close>

text \<open>
  A registered tool is called with keyword arguments; it returns a string or raises, and
  may change the backend it closes over. \<open>'b\<close> is the state of that backend.
\<close>

type_synonym 'b tool = "(string \<times> json) list \<Rightarrow> 'b \<Rightarrow> (exn + string) \<times> 'b"

text \<open>
  The host: the backend, the lines printed to standard output (each element is the value
  handed to \<open>print(json.dumps(...))\<close>), and the messages passed to \<open>logger.error\<close>.
\<close>

record 'b host =
  backend :: 'b
  stdout :: "json list"
  errlog :: "string list"

text \<open>
  \<open>tool_name in self.tools\<close> followed by \<open>self.tools[tool_name]\<close>: a list or a dict is
  unhashable, a string is looked up, any other value is no key of the table.
\<close>

definition lookup_tool :: "(string \<rightharpoonup> 'b tool) \<Rightarrow> json \<Rightarrow> exn + 'b tool option" where
  "lookup_tool tools tool_name =
     (case tool_name of
        JStr n \<Rightarrow> Inr (tools n)
      | JArr xs \<Rightarrow> Inl (Exn TypeError (''unhashable type: '' @ [CHR 0x27] @ ''list'' @ [CHR 0x27]))
      | JObj kv \<Rightarrow> Inl (Exn TypeError (''unhashable type: '' @ [CHR 0x27] @ ''dict'' @ [CHR 0x27]))
      | _ \<Rightarrow> Inr None)"

definition result_response :: "json \<Rightarrow> string \<Rightarrow> json" where
  "result_response rid res =
     JObj [(''jsonrpc'', JStr ''2.0''), (''id'', rid),
           (''result'', JObj [(''content'', JArr [JObj [(''type'', JStr ''text''), (''text'', JStr res)]])])]"

definition error_response :: "runtime \<Rightarrow> json \<Rightarrow> json \<Rightarrow> json" where
  "error_response rt rid tool_name =
     JObj [(''jsonrpc'', JStr ''2.0''), (''id'', rid),
           (''error'', JObj [(''code'', JInt (- 1)),
                            (''message'', JStr (''Tool '' @ py_str rt tool_name @ '' not found''))])]"

text \<open>
  The branch \<open>method == 'tools/call'\<close>: the response to print, or the exception raised
  on the way, with the backend as the tool left it. \<open>request.get('id')\<close> is evaluated
  when the response is built, after the tool has run.
\<close>

definition tools_call :: "runtime \<Rightarrow> (string \<rightharpoonup> 'b tool) \<Rightarrow> json \<Rightarrow> 'b \<Rightarrow> (exn + json) \<times> 'b" where
  "tools_call rt tools request b =
     (case py_subscript request ''params'' of
        Inl e \<Rightarrow> (Inl e, b)
      | Inr params \<Rightarrow>
     (case py_subscript params ''name'' of
        Inl e \<Rightarrow> (Inl e, b)
      | Inr tool_name \<Rightarrow>
     (case py_get params ''arguments'' (JObj []) of
        Inl e \<Rightarrow> (Inl e, b)
      | Inr args \<Rightarrow>
     (case lookup_tool tools tool_name of
        Inl e \<Rightarrow> (Inl e, b)
      | Inr (Some f) \<Rightarrow>
          (case args of
             JObj kw \<Rightarrow>
               (case f kw b of
                  (Inl e, b') \<Rightarrow> (Inl e, b')
                | (Inr res, b') \<Rightarrow>
                    (case py_get request ''id'' JNull of
                       Inl e \<Rightarrow> (Inl e, b')
                     | Inr rid \<Rightarrow> (Inr (result_response rid res), b')))
           | _ \<Rightarrow> (Inl (Exn TypeError ''argument after ** must be a mapping''), b))
      | Inr None \<Rightarrow>
          (case py_get request ''id'' JNull of
             Inl e \<Rightarrow> (Inl e, b)
           | Inr rid \<Rightarrow> (Inr (error_response rt rid tool_name), b))))))"

text \<open>
  The body of the \<open>try\<close> of \<open>process_request\<close>: \<open>Inr None\<close> when nothing is printed (a
  method other than \<open>tools/call\<close>), \<open>Inr (Some response)\<close> when a line is printed.
\<close>

definition request_body :: "runtime \<Rightarrow> (string \<rightharpoonup> 'b tool) \<Rightarrow> string \<Rightarrow> 'b \<Rightarrow> (exn + json option) \<times> 'b" where
  "request_body rt tools request_line b =
     (case json_loads rt request_line of
        Inl e \<Rightarrow> (Inl e, b)
      | Inr request \<Rightarrow>
     (case py_get request ''method'' (JStr []) of
        Inl e \<Rightarrow> (Inl e, b)
      | Inr method \<Rightarrow>
          if method = JStr ''tools/call''
          then (case tools_call rt tools request b of
                  (Inl e, b') \<Rightarrow> (Inl e, b')
                | (Inr response, b') \<Rightarrow> (Inr (Some response), b'))
          else (Inr None, b)))"

text \<open>\<open>process_request\<close>: the handler \<open>except Exception\<close> logs and prints nothing.\<close>

definition process_request :: "runtime \<Rightarrow> (string \<rightharpoonup> 'b tool) \<Rightarrow> string \<Rightarrow> 'b host \<Rightarrow> 'b host" where
  "process_request rt tools request_line h =
     (case request_body rt tools request_line (backend h) of
        (Inl e, b') \<Rightarrow> h\<lparr>backend := b', errlog := errlog h @ [''Error processing request: '' @ exn_str e]\<rparr>
      | (Inr None, b') \<Rightarrow> h\<lparr>backend := b'\<rparr>
      | (Inr (Some response), b') \<Rightarrow> h\<lparr>backend := b', stdout := stdout h @ [response]\<rparr>)"

text \<open>
  What \<open>input()\<close> does at each turn of the loop of \<open>run\<close>: it returns a line or raises.
  The end of the list is the end of the input stream, where \<open>input()\<close> raises \<open>EOFError\<close>.
\<close>

datatype stdin_event = Line string | Raises exn

fun run :: "runtime \<Rightarrow> (string \<rightharpoonup> 'b tool) \<Rightarrow> stdin_event list \<Rightarrow> 'b host \<Rightarrow> 'b host" where
  "run rt tools [] h = h"
| "run rt tools (Line l # rest) h =
     run rt tools rest (if strip l \<noteq> [] then process_request rt tools l h else h)"
| "run rt tools (Raises e # rest) h =
     (if exn_cls e = EOFError then h
      else run rt tools rest (h\<lparr>errlog := errlog h @ [''Error in server loop: '' @ exn_str e]\<rparr>))"

text \<open>No event of the list is the end of the input stream.\<close>

fun eof_free :: "stdin_event list \<Rightarrow> bool" where
  "eof_free [] = True"
| "eof_free (Line l # rest) = eof_free rest"
| "eof_free (Raises e # rest) = (exn_cls e \<noteq> EOFError \<and> eof_free rest)"

subsection \<open>Two of the registered tools\<close>

text \<open>
  The wrappers \<open>run_query\<close> and \<open>get_last_query\<close> registered with \<open>@mcp.tool\<close>, over the
  backend \<open>sql_tool\<close>. Binding the keyword arguments happens before the wrapper's own
  \<open>try\<close>: an argument the function does not take, or a missing \<open>query\<close>, raises
  \<open>TypeError\<close> at the call. A \<open>query\<close> that is not a string has no \<open>strip\<close>; the
  exception leaves \<open>SQLQueryTool.run_query\<close> from inside its handler and the wrapper
  turns it into text. \<open>outcome\<close> and \<open>ts\<close> are what the database and the clock give.
\<close>

definition run_query_tool :: "exn + string \<Rightarrow> string \<Rightarrow> sql_tool tool" where
  "run_query_tool outcome ts kw st =
     (case filter (\<lambda>k. k \<noteq> ''query'') (map fst kw) of
        k # ks \<Rightarrow>
          (Inl (Exn TypeError
                 (''run_query() got an unexpected keyword argument '' @ [CHR 0x27] @ k @ [CHR 0x27])), st)
      | [] \<Rightarrow>
          (case map_of kw ''query'' of
             None \<Rightarrow>
               (Inl (Exn TypeError
                      (''run_query() missing 1 required positional argument: '' @
                       [CHR 0x27] @ ''query'' @ [CHR 0x27])), st)
           | Some (JStr q) \<Rightarrow> (case run_query outcome ts q st of (res, st') \<Rightarrow> (Inr res, st'))
           | Some v \<Rightarrow>
               (Inr (''Error executing query: '' @ exn_str (attribute_error v ''strip'')), st)))"

text \<open>\<open>str(None)\<close> for a field that was never set.\<close>

definition str_opt :: "string option \<Rightarrow> string" where
  "str_opt v = (case v of None \<Rightarrow> ''None'' | Some s \<Rightarrow> s)"

definition get_last_query_tool :: "sql_tool tool" where
  "get_last_query_tool kw st =
     (case kw of
        (k, v) # rest \<Rightarrow>
          (Inl (Exn TypeError
                 (''get_last_query() got an unexpected keyword argument '' @ [CHR 0x27] @ k @ [CHR 0x27])), st)
      | [] \<Rightarrow>
          (Inr (''Last Query: '' @ str_opt (last_query st) @ [NL, NL] @
                ''Result: '' @ str_opt (last_result st)), st))"

definition modelled_tools :: "exn + string \<Rightarrow> string \<Rightarrow> (string \<rightharpoonup> sql_tool tool)" where
  "modelled_tools outcome ts =
     [''run_query'' \<mapsto> run_query_tool outcome ts, ''get_last_query'' \<mapsto> get_last_query_tool]"

section \<open>Client Proxy: \<open>MCPSQLClient\<close> (src/client/client_module.py)\<close>

text \<open>
  The handle \<open>self.process\<close> is \<open>None\<close> until \<open>start_server\<close> stores the spawned process;
  of the process the client reads \<open>returncode\<close> (\<open>None\<close> while it runs).
\<close>

record proc =
  returncode :: "int option"

record client =
  process :: "proc option"

text \<open>\<open>__init__\<close>.\<close>

definition init_client :: client where
  "init_client = \<lparr>process = None\<rparr>"

text \<open>
  What the operating system answers to \<open>start_server\<close>: whether the script exists, and
  what \<open>create_subprocess_exec\<close> gives, the handle being read after the one-second sleep.
\<close>

record launch =
  script_exists :: bool
  spawn :: "exn + proc"

definition start_server :: "launch \<Rightarrow> client \<Rightarrow> bool \<times> client" where
  "start_server env c =
     (if \<not> script_exists env then (False, c)
      else (case spawn env of
              Inl e \<Rightarrow> (False, c)
            | Inr p \<Rightarrow>
                (let c' = c\<lparr>process := Some p\<rparr>
                 in if returncode p \<noteq> None then (False, c') else (True, c'))))"

text \<open>
  The dict \<open>{"error": ..., "result": ...}\<close> that \<open>call_tool\<close> returns; \<open>payload\<close> is the
  value under the key \<open>"result"\<close>.
\<close>

record result_envelope =
  error :: bool
  payload :: json

definition tool_request :: "string \<Rightarrow> (string \<times> json) list \<Rightarrow> json" where
  "tool_request tool_name parameters =
     JObj [(''jsonrpc'', JStr ''2.0''), (''id'', JInt 1), (''method'', JStr ''tools/call''),
           (''params'', JObj [(''name'', JStr tool_name), (''arguments'', JObj parameters)])]"

text \<open>
  What the subprocess answers to one call: \<open>write_drain\<close> is the outcome of encoding the
  request, writing it and draining (\<open>None\<close> when nothing is raised), \<open>readline\<close> the outcome
  of the single \<open>wait_for(stdout.readline(), 30)\<close>: the bytes of a line, empty at the end
  of the stream, or an exception, \<open>TimeoutError\<close> on expiry.
\<close>

record exchange =
  write_drain :: "json \<Rightarrow> exn option"
  readline :: "exn + string"

text \<open>\<open>"error" in response\<close>.\<close>

definition has_error :: "json \<Rightarrow> exn + bool" where
  "has_error response =
     (case response of
        JObj kv \<Rightarrow> Inr (map_of kv ''error'' \<noteq> None)
      | JArr xs \<Rightarrow> Inr (JStr ''error'' \<in> set xs)
      | JStr s \<Rightarrow> Inr (contains ''error'' s)
      | _ \<Rightarrow> Inl (Exn TypeError
                 (''argument of type '' @ [CHR 0x27] @ type_name response @ [CHR 0x27] @
                  '' is not iterable'')))"

text \<open>\<open>isinstance(v, dict)\<close>, and \<open>isinstance(v, list) and len(v) > 0\<close>.\<close>

fun is_dict :: "json \<Rightarrow> bool" where
  "is_dict (JObj kv) = True"
| "is_dict v = False"

fun nonempty_list :: "json \<Rightarrow> bool" where
  "nonempty_list (JArr (x # xs)) = True"
| "nonempty_list v = False"

text \<open>The \<open>else\<close> branch of \<open>call_tool\<close>: the envelope for a response without an error.\<close>

definition result_payload :: "runtime \<Rightarrow> json \<Rightarrow> exn + result_envelope" where
  "result_payload rt response =
     (case py_get response ''result'' (JObj []) of
        Inl e \<Rightarrow> Inl e
      | Inr res \<Rightarrow>
          (case res of
             JObj kv \<Rightarrow>
               (case map_of kv ''content'' of
                  Some content \<Rightarrow>
                    (case content of
                       JArr (item # items) \<Rightarrow>
                         (case py_get item ''text'' (JStr []) of
                            Inl e \<Rightarrow> Inl e
                          | Inr t \<Rightarrow> Inr \<lparr>error = False, payload = t\<rparr>)
                     | _ \<Rightarrow> Inr \<lparr>error = False, payload = JStr (py_str rt content)\<rparr>)
                | None \<Rightarrow> Inr \<lparr>error = False, payload = JStr (py_str rt res)\<rparr>)
           | _ \<Rightarrow> Inr \<lparr>error = False, payload = JStr (py_str rt res)\<rparr>))"

text \<open>What \<open>call_tool\<close> does with a response line that is not empty.\<close>

definition read_response :: "runtime \<Rightarrow> string \<Rightarrow> exn + result_envelope" where
  "read_response rt response_line =
     (case bytes_decode rt response_line of
        Inl e \<Rightarrow> Inl e
      | Inr text \<Rightarrow>
     (case json_loads rt text of
        Inl e \<Rightarrow> Inl e
      | Inr response \<Rightarrow>
     (case has_error response of
        Inl e \<Rightarrow> Inl e
      | Inr True \<Rightarrow>
          (case py_subscript response ''error'' of
             Inl e \<Rightarrow> Inl e
           | Inr err \<Rightarrow> Inr \<lparr>error = True, payload = JStr (py_str rt err)\<rparr>)
      | Inr False \<Rightarrow> result_payload rt response)))"

text \<open>The body of the outer \<open>try\<close>; the inner \<open>try\<close> returns on \<open>TimeoutError\<close>.\<close>

definition call_body :: "runtime \<Rightarrow> exchange \<Rightarrow> json \<Rightarrow> exn + result_envelope" where
  "call_body rt io request =
     (case write_drain io request of
        Some e \<Rightarrow> Inl e
      | None \<Rightarrow>
          (case readline io of
             Inl e \<Rightarrow>
               if exn_cls e = TimeoutError
               then Inr \<lparr>error = True, payload = JStr ''Request timeout''\<rparr>
               else Inl e
           | Inr response_line \<Rightarrow>
               if response_line = []
               then Inr \<lparr>error = True, payload = JStr ''No response from server''\<rparr>
               else read_response rt response_line))"

text \<open>
  \<open>call_tool\<close>. \<open>Inl e\<close> would be an exception that leaves the method; the two handlers
  of the outer \<open>try\<close> are the last \<open>case\<close>.
\<close>

definition call_tool ::
  "runtime \<Rightarrow> exchange \<Rightarrow> client \<Rightarrow> string \<Rightarrow> (string \<times> json) list option \<Rightarrow> exn + result_envelope" where
  "call_tool rt io c tool_name parameters =
     (case process c of
        None \<Rightarrow> Inr \<lparr>error = True, payload = JStr ''MCP server not started''\<rparr>
      | Some p \<Rightarrow>
          (let params = (case parameters of None \<Rightarrow> [] | Some kv \<Rightarrow> kv);
               request = tool_request tool_name params
           in case call_body rt io request of
                Inr r \<Rightarrow> Inr r
              | Inl e \<Rightarrow>
                  if exn_cls e = JSONDecodeError
                  then Inr \<lparr>error = True, payload = JStr ''Invalid response from server''\<rparr>
                  else Inr \<lparr>error = True, payload = JStr (exn_str e)\<rparr>))"

text \<open>
  What the operating system answers to \<open>close\<close>: the exit status when the process ends
  within five seconds of \<open>terminate()\<close> (\<open>None\<close> when it is still alive then), its exit
  status after \<open>kill()\<close>, and what \<open>terminate()\<close> and \<open>kill()\<close> raise on a process that has
  already exited (\<open>None\<close> when they raise nothing).
\<close>

record shutdown =
  exit_after_terminate :: "int option"
  exit_after_kill :: int
  signal_exited :: "exn option"

text \<open>\<open>terminate()\<close> and \<open>kill()\<close>: \<open>Inl\<close> when the call raises.\<close>

definition send_signal :: "shutdown \<Rightarrow> proc \<Rightarrow> exn + unit" where
  "send_signal os p =
     (case returncode p of
        None \<Rightarrow> Inr ()
      | Some rc \<Rightarrow> (case signal_exited os of Some e \<Rightarrow> Inl e | None \<Rightarrow> Inr ()))"

text \<open>
  The body of the \<open>try\<close> of \<open>close\<close>: \<open>terminate()\<close>, then the wait bounded by five
  seconds, which raises \<open>TimeoutError\<close> when the process is still alive at its end.
\<close>

definition close_body :: "shutdown \<Rightarrow> proc \<Rightarrow> exn + proc" where
  "close_body os p =
     (case send_signal os p of
        Inl e \<Rightarrow> Inl e
      | Inr u \<Rightarrow>
          (case returncode p of
             Some rc \<Rightarrow> Inr p
           | None \<Rightarrow>
               (case exit_after_terminate os of
                  Some rc \<Rightarrow> Inr (p\<lparr>returncode := Some rc\<rparr>)
                | None \<Rightarrow> Inl (Exn TimeoutError []))))"

text \<open>The handler \<open>except asyncio.TimeoutError\<close>: \<open>kill()\<close>, then an unbounded wait.\<close>

definition kill_and_wait :: "shutdown \<Rightarrow> proc \<Rightarrow> exn + proc" where
  "kill_and_wait os p =
     (case send_signal os p of
        Inl e \<Rightarrow> Inl e
      | Inr u \<Rightarrow>
          (case returncode p of
             Some rc \<Rightarrow> Inr p
           | None \<Rightarrow> Inr (p\<lparr>returncode := Some (exit_after_kill os)\<rparr>)))"

text \<open>
  \<open>close\<close>. \<open>Inl e\<close> is an exception that leaves the method: the only handler is the one
  for \<open>TimeoutError\<close>, and \<open>self.process\<close> is never set back to \<open>None\<close>.
\<close>

definition close :: "shutdown \<Rightarrow> client \<Rightarrow> exn + client" where
  "close os c =
     (case process c of
        None \<Rightarrow> Inr c
      | Some p \<Rightarrow>
          (case close_body os p of
             Inr p' \<Rightarrow> Inr (c\<lparr>process := Some p'\<rparr>)
           | Inl e \<Rightarrow>
               if exn_cls e = TimeoutError
               then (case kill_and_wait os p of
                       Inl e' \<Rightarrow> Inl e'
                     | Inr p' \<Rightarrow> Inr (c\<lparr>process := Some p'\<rparr>))
               else Inl e))"

section \<open>Concrete inputs\<close>

text \<open>
  A runtime given by two tables, for evaluating the model on concrete lines: \<open>json.loads\<close>
  decodes the listed texts and raises \<open>JSONDecodeError\<close> on any other, \<open>repr\<close> is given
  for the listed values, and \<open>bytes.decode()\<close> is the identity, as it is on ASCII.
\<close>

definition table_runtime :: "(string \<times> json) list \<Rightarrow> (json \<times> string) list \<Rightarrow> runtime" where
  "table_runtime texts reprs =
     \<lparr>json_loads = (\<lambda>s. case map_of texts s of
                          Some v \<Rightarrow> Inr v
                        | None \<Rightarrow> Inl (Exn JSONDecodeError ''Expecting value: line 1 column 1 (char 0)'')),
      bytes_decode = (\<lambda>b. Inr b),
      repr = (\<lambda>v. case map_of reprs v of Some s \<Rightarrow> s | None \<Rightarrow> [])\<rparr>"

text \<open>A string between double quotes, and the line that \<open>json.dumps\<close> writes for a call.\<close>

definition dq :: "string \<Rightarrow> string" where
  "dq s = [CHR 0x22] @ s @ [CHR 0x22]"

definition call_line :: "string \<Rightarrow> string \<Rightarrow> string" where
  "call_line tool_name arguments =
     ''{'' @ dq ''jsonrpc'' @ '': '' @ dq ''2.0'' @ '', '' @ dq ''id'' @ '': 1, '' @
     dq ''method'' @ '': '' @ dq ''tools/call'' @ '', '' @ dq ''params'' @ '': {'' @
     dq ''name'' @ '': '' @ dq tool_name @ '', '' @ dq ''arguments'' @ '': '' @ arguments @ ''}}''"

text \<open>A host whose backend has run nothing, and a process that is running.\<close>

definition fresh_host :: "sql_tool host" where
  "fresh_host = \<lparr>backend = init_sql_tool, stdout = [], errlog = []\<rparr>"

definition started_client :: client where
  "started_client = \<lparr>process = Some \<lparr>returncode = None\<rparr>\<rparr>"

text \<open>The subprocess answers the call with the line \<open>l\<close>.\<close>

definition answers :: "string \<Rightarrow> exchange" where
  "answers l = \<lparr>write_drain = (\<lambda>request. None), readline = Inr l\<rparr>"

section \<open>Tool Backend: results\<close>

lemma last10_short: "length xs \<le> 10 \<Longrightarrow> last10 xs = xs"
  by (simp add: last10_def)

lemma length_last10: "length (last10 xs) \<le> 10"
  by (simp add: last10_def)

lemma length_last10_full: "10 < length xs \<Longrightarrow> length (last10 xs) = 10"
  by (simp add: last10_def)

lemma last10_snoc: "last10 (last10 xs @ [x]) = last10 (xs @ [x])"
proof (cases "length xs \<le> 10")
  case True
  then show ?thesis by (simp add: last10_def)
next
  case False
  then have "Suc (length xs - 10) = length xs - 9" by arith
  with False show ?thesis by (simp add: last10_def)
qed

lemma last10_append: "last10 (last10 xs @ ys) = last10 (xs @ ys)"
proof (induction ys arbitrary: xs rule: rev_induct)
  case Nil
  show ?case using length_last10 [of xs] by (simp add: last10_short)
next
  case (snoc y ys)
  have "last10 (last10 xs @ ys @ [y]) = last10 (last10 (last10 xs @ ys) @ [y])"
    using last10_snoc [of "last10 xs @ ys" y] by simp
  also have "\<dots> = last10 (last10 (xs @ ys) @ [y])" by (simp add: snoc.IH)
  also have "\<dots> = last10 (xs @ ys @ [y])" using last10_snoc [of "xs @ ys" y] by simp
  finally show ?case .
qed

lemma last10_evict: "length xs = 10 \<Longrightarrow> last10 (xs @ [x]) = tl xs @ [x]"
  by (cases xs) (simp_all add: last10_def)

lemma last10_map: "last10 (map f xs) = map f (last10 xs)"
  by (simp add: last10_def drop_map)

lemma executed_queries_returns:
  "executed_queries (snd (run_query (Inr r) ts q st)) =
     last10 (executed_queries st @ [\<lparr>query = strip q, result = r, timestamp = ts\<rparr>])"
  by (simp add: run_query_def last10_def Let_def)

lemma executed_queries_raises:
  "executed_queries (snd (run_query (Inl e) ts q st)) = executed_queries st"
  by (simp add: run_query_def Let_def)

lemma run_queries_append:
  "run_queries (cs @ ds) st = run_queries ds (run_queries cs st)"
  by (induction cs st rule: run_queries.induct) simp_all

lemma executed_queries_run_queries:
  "executed_queries (run_queries cs st) =
     (if returned cs = [] then executed_queries st
      else last10 (executed_queries st @ returned cs))"
proof (induction cs arbitrary: st rule: returned.induct)
  case 1
  then show ?case by simp
next
  case (2 res ts q cs)
  show ?case
    using last10_append [of "executed_queries st @ [\<lparr>query = strip q, result = res, timestamp = ts\<rparr>]" "returned cs"]
    by (simp add: "2.IH" executed_queries_returns last10_short length_last10)
next
  case (3 e ts q cs)
  then show ?case by (simp add: executed_queries_raises)
qed

lemma history_fresh:
  "executed_queries (run_queries cs init_sql_tool) = last10 (returned cs)"
  by (simp add: executed_queries_run_queries init_sql_tool_def last10_def)

lemma returned_all:
  "\<forall>c \<in> set cs. \<exists>r. fst c = Inr r \<Longrightarrow>
   map query (returned cs) = map (\<lambda>c. strip (snd (snd c))) cs"
  by (induction cs rule: returned.induct) auto

text \<open>
  Claim C1, as the code has it. When the execution raises \<open>e\<close>, \<open>run_query\<close> returns the
  text \<open>Error executing query: \<close> followed by \<open>str(e)\<close> and raises nothing; it stores the
  stripped query and that text as \<open>last_query\<close> and \<open>last_result\<close>, and it leaves the
  execution history as it was: the attempt is not appended.
\<close>

theorem run_query_raise_not_recorded:
  "run_query (Inl e) ts q st =
     (''Error executing query: '' @ exn_str e,
      st\<lparr>last_query := Some (strip q),
         last_result := Some (''Error executing query: '' @ exn_str e)\<rparr>)
   \<and> executed_queries (snd (run_query (Inl e) ts q st)) = executed_queries st"
  by (simp add: run_query_def Let_def)

text \<open>
  Claim C1 as stated fails: on a fresh backend, a query whose execution raises leaves the
  history empty, where the claim has one entry holding the query and the error text.
\<close>

theorem run_query_raise_counterexample:
  "fst (run_query (Inl (Exn OtherException ''boom'')) ''12:00'' ''SELECT 1'' init_sql_tool) =
     ''Error executing query: boom''
   \<and> executed_queries (snd (run_query (Inl (Exn OtherException ''boom'')) ''12:00'' ''SELECT 1'' init_sql_tool)) = []
   \<and> executed_queries (snd (run_query (Inl (Exn OtherException ''boom'')) ''12:00'' ''SELECT 1'' init_sql_tool)) \<noteq>
       [\<lparr>query = ''SELECT 1'', result = ''Error executing query: boom'', timestamp = ''12:00''\<rparr>]"
  by (simp add: run_query_def init_sql_tool_def Let_def)

text \<open>
  Claim C4, as the code has it. Take any sequence of \<open>run_query\<close> calls on a fresh backend
  of which more than ten return (their execution does not raise). Then the history holds
  exactly ten entries, those of the last ten calls that returned, in call order, each with
  the stripped query; when every call returns these are the last ten queries issued. A
  further call that returns drops the oldest entry and appends its own; a further call that
  raises changes nothing. After any sequence of calls the history has at most ten entries.
\<close>

theorem history_bound:
  assumes "10 < length (returned cs)"
  shows "length (executed_queries (run_queries cs init_sql_tool)) = 10
       \<and> executed_queries (run_queries cs init_sql_tool) = last10 (returned cs)
       \<and> ((\<forall>c \<in> set cs. \<exists>r. fst c = Inr r) \<longrightarrow>
            map query (executed_queries (run_queries cs init_sql_tool)) =
              last10 (map (\<lambda>c. strip (snd (snd c))) cs))
       \<and> executed_queries (run_queries (cs @ [(Inr r, ts, q)]) init_sql_tool) =
            tl (executed_queries (run_queries cs init_sql_tool)) @
            [\<lparr>query = strip q, result = r, timestamp = ts\<rparr>]
       \<and> executed_queries (run_queries (cs @ [(Inl e, ts, q)]) init_sql_tool) =
            executed_queries (run_queries cs init_sql_tool)
       \<and> length (executed_queries (run_queries ds init_sql_tool)) \<le> 10"
proof -
  let ?h = "executed_queries (run_queries cs init_sql_tool)"
  have h: "?h = last10 (returned cs)" by (rule history_fresh)
  have len: "length ?h = 10" using assms by (simp add: h length_last10_full)
  have all: "(\<forall>c \<in> set cs. \<exists>r. fst c = Inr r) \<longrightarrow>
      map query ?h = last10 (map (\<lambda>c. strip (snd (snd c))) cs)"
  proof
    assume a: "\<forall>c \<in> set cs. \<exists>r. fst c = Inr r"
    have "map query ?h = last10 (map query (returned cs))" by (simp add: h last10_map)
    also have "\<dots> = last10 (map (\<lambda>c. strip (snd (snd c))) cs)"
      using returned_all [OF a] by simp
    finally show "map query ?h = last10 (map (\<lambda>c. strip (snd (snd c))) cs)" .
  qed
  have evict: "executed_queries (run_queries (cs @ [(Inr r, ts, q)]) init_sql_tool) =
      tl ?h @ [\<lparr>query = strip q, result = r, timestamp = ts\<rparr>]"
    using len by (simp add: run_queries_append executed_queries_returns last10_evict)
  have keep: "executed_queries (run_queries (cs @ [(Inl e, ts, q)]) init_sql_tool) = ?h"
    by (simp add: run_queries_append executed_queries_raises)
  have bound: "length (executed_queries (run_queries ds init_sql_tool)) \<le> 10"
    by (simp add: history_fresh length_last10)
  from len h all evict keep bound show ?thesis by blast
qed

text \<open>Eleven queries that all return: the first is evicted, the other ten remain in order.\<close>

theorem history_bound_witness:
  "10 < length (returned (map (\<lambda>n. (Inr ''ok'', ''12:00'', replicate n CHR ''x'')) [1 ..< 12]))
   \<and> map query (executed_queries
        (run_queries (map (\<lambda>n. (Inr ''ok'', ''12:00'', replicate n CHR ''x'')) [1 ..< 12]) init_sql_tool)) =
       map (\<lambda>n. replicate n CHR ''x'') [2 ..< 12]"
proof -
  let ?cs = "map (\<lambda>n. (Inr ''ok'' :: exn + string, ''12:00'', replicate n CHR ''x'')) [1 ..< 12]"
  have len: "10 < length (returned ?cs)" by code_simp
  have ok: "\<forall>c \<in> set ?cs. \<exists>r. fst c = Inr r" by auto
  have "map query (executed_queries (run_queries ?cs init_sql_tool)) =
      last10 (map (\<lambda>c. strip (snd (snd c))) ?cs)"
    using history_bound [OF len] ok by blast
  also have "\<dots> = map (\<lambda>n. replicate n CHR ''x'') [2 ..< 12]" by code_simp
  finally show ?thesis using len by blast
qed

text \<open>
  Claim C4 as stated fails: after eleven calls whose executions all raise, the history
  holds no entry, not ten.
\<close>

theorem history_bound_counterexample:
  "length (replicate 11 (Inl (Exn OtherException ''gone away'') :: exn + string, ''12:00'', ''SELECT 1'')) = 11
   \<and> executed_queries
       (run_queries (replicate 11 (Inl (Exn OtherException ''gone away''), ''12:00'', ''SELECT 1''))
          init_sql_tool) = []"
  by code_simp


end
